theory Spec2Isabelle
  imports Complex_Main "HOL-Library.FSet"
begin

section \<open>The runtime the server code is written against\<close>

text \<open>
  The server (\<^verbatim>\<open>server/src/index.js\<close>) and its helpers (\<^verbatim>\<open>lib/crypto.js\<close>,
  \<^verbatim>\<open>lib/time.js\<close>, \<^verbatim>\<open>lib/topics.js\<close>) call three things that are not code of the
  repository: Node's \<^verbatim>\<open>crypto\<close> module, the \<^verbatim>\<open>Date\<close> parser and the Hedera SDK.
  They are parameters of the model:
  \<^item> \<open>createHash_sha256\<close> is \<^verbatim>\<open>crypto.createHash('sha256').update(data).digest('hex')\<close>;
  \<^item> \<open>createHmac_sha256\<close> is \<^verbatim>\<open>crypto.createHmac('sha256', secret).update(data).digest('hex')\<close>;
  \<^item> \<open>date_getTime\<close> is \<^verbatim>\<open>new Date(iso).getTime()\<close>, with \<open>None\<close> for \<^verbatim>\<open>NaN\<close>
    (a string that is not a date).
  \<^item> \<open>js_round\<close> is the rounding of the engine's arithmetic: a JavaScript number is an
    IEEE 754 double, and \<^verbatim>\<open>a - b\<close> and \<^verbatim>\<open>a / b\<close> return the double that \<open>js_round\<close> gives
    for the exact difference and quotient;
  \<^item> \<open>typeError_message\<close> is the message of the \<^verbatim>\<open>TypeError\<close> the engine throws at the named
    expression when it reads a property of \<^verbatim>\<open>undefined\<close> or iterates over it.
  Strings are \<open>string\<close>. A number is the rational it denotes; millisecond timestamps and
  the tolerance are integers.

  What the types leave out: request fields and configuration values that are not of the
  expected JSON type (a number where a string is read, a tolerance that \<^verbatim>\<open>parseInt\<close> reads
  as \<^verbatim>\<open>NaN\<close>, a timestamp that is infinite or has a fraction). The handlers are
  \<^verbatim>\<open>async\<close>; the model runs one request to its end before the next, so it says nothing
  about two requests interleaved at an \<^verbatim>\<open>await\<close>.
\<close>

record node_runtime =
  createHash_sha256 :: "string \<Rightarrow> string"
  createHmac_sha256 :: "string \<Rightarrow> string \<Rightarrow> string"
  date_getTime :: "string \<Rightarrow> int option"
  js_round :: "rat \<Rightarrow> rat"
  typeError_message :: "string \<Rightarrow> string"

text \<open>
  The finite doubles: \<open>m * 2 ^ e\<close> with \<open>\<bar>m\<bar> < 2 ^ 53\<close> and \<open>-1074 \<le> e \<le> 971\<close>. IEEE 754
  rounds an exact result to a double nearest to it; \<open>rounds_to_nearest\<close> says so of the
  runtime's rounding, for the results whose absolute value is at most \<open>2 ^ 53\<close>.
\<close>

definition binary64 :: "rat set" where
  "binary64 = {of_int m * 2 ^ a / 2 ^ b | m a b. \<bar>m\<bar> < 2 ^ 53 \<and> a \<le> 971 \<and> b \<le> 1074}"

definition rounds_to_nearest :: "node_runtime \<Rightarrow> bool" where
  "rounds_to_nearest lib \<longleftrightarrow>
     (\<forall>x. \<bar>x\<bar> \<le> 2 ^ 53 \<longrightarrow> (\<forall>d \<in> binary64. \<bar>js_round lib x - x\<bar> \<le> \<bar>d - x\<bar>))"

text \<open>The integers that every double arithmetic represents exactly.\<close>

definition exact_integer :: "int \<Rightarrow> bool" where
  "exact_integer n \<longleftrightarrow> \<bar>n\<bar> \<le> 2 ^ 53"

section \<open>lib/crypto.js\<close>

definition sha256Hex :: "node_runtime \<Rightarrow> string \<Rightarrow> string" where
  "sha256Hex lib data = createHash_sha256 lib data"

definition hmacSha256Hex :: "node_runtime \<Rightarrow> string \<Rightarrow> string \<Rightarrow> string" where
  "hmacSha256Hex lib secret data = createHmac_sha256 lib secret data"

definition computeUidHash :: "node_runtime \<Rightarrow> string \<Rightarrow> string \<Rightarrow> string" where
  "computeUidHash lib uidHex sessionSalt =
     (let combined = uidHex @ sessionSalt;
          hash = sha256Hex lib combined
      in ''0x'' @ hash)"

definition deriveSessionSalt :: "node_runtime \<Rightarrow> string \<Rightarrow> string \<Rightarrow> string \<Rightarrow> string" where
  "deriveSessionSalt lib secret classId sessionStartIso =
     (let data = classId @ '':'' @ sessionStartIso
      in hmacSha256Hex lib secret data)"

section \<open>lib/time.js\<close>

text \<open>
  \<^verbatim>\<open>withinTolerance\<close> returns \<^verbatim>\<open>{ onTime, minutesLate }\<close>. When the start string is not
  a date, \<^verbatim>\<open>startTime\<close> is \<^verbatim>\<open>NaN\<close>, every comparison with it is false and
  \<^verbatim>\<open>Math.max(0, NaN)\<close> is \<^verbatim>\<open>NaN\<close> (\<open>None\<close> here). The subtraction and the division
  are operations on doubles, each rounded; the comparison and \<^verbatim>\<open>Math.max\<close> are exact.
\<close>

record tolerance_result =
  onTime :: bool
  minutesLate :: "rat option"

definition withinTolerance :: "node_runtime \<Rightarrow> int \<Rightarrow> string \<Rightarrow> int \<Rightarrow> tolerance_result" where
  "withinTolerance lib ts startIso toleranceMinutes =
     (case date_getTime lib startIso of
        None \<Rightarrow> \<lparr>onTime = False, minutesLate = None\<rparr>
      | Some startTime \<Rightarrow>
          (let diffMs = js_round lib (of_int ts - of_int startTime);
               diffMinutes = js_round lib (diffMs / 60000)
           in \<lparr>onTime = (diffMinutes \<le> of_int toleranceMinutes),
               minutesLate = Some (max 0 diffMinutes)\<rparr>))"

definition determineStatus :: "node_runtime \<Rightarrow> int \<Rightarrow> string \<Rightarrow> int \<Rightarrow> string" where
  "determineStatus lib ts startIso toleranceMinutes =
     (if onTime (withinTolerance lib ts startIso toleranceMinutes)
      then ''present_on_time'' else ''late'')"

section \<open>lib/topics.js and the configuration of the server\<close>

text \<open>
  The schedule and the roster are read once from \<^verbatim>\<open>data/schedule.json\<close> and
  \<^verbatim>\<open>data/roster.json\<close>; both are plain objects keyed by class id, here the maps of their
  own keys. \<^verbatim>\<open>obj[key]\<close> on a plain object also finds the properties every object inherits
  from \<^verbatim>\<open>Object.prototype\<close>: for such a key that is not an own key the lookup returns a
  function (or the prototype itself), which is truthy and has no \<^verbatim>\<open>sessions\<close> and no
  \<^verbatim>\<open>students\<close>. The environment variables
  the handlers read are fields of the same record, \<open>None\<close> for a variable that is unset
  or empty (both are falsy for \<^verbatim>\<open>||\<close>). \<open>env_LATE_TOLERANCE_MIN\<close> holds the integer
  \<^verbatim>\<open>parseInt\<close> reads from the variable.
\<close>

record session_info =
  session_id :: string
  session_startIso :: string

record class_schedule =
  sessions :: "session_info list"

record student =
  studentId :: string
  cardUidHex :: string

record roster =
  students :: "student list"

record server_config =
  scheduleData :: "string \<rightharpoonup> class_schedule"
  rosterData :: "string \<rightharpoonup> roster"
  env_SALT_SECRET :: "string option"
  env_LATE_TOLERANCE_MIN :: "int option"
  env_TOPIC_ID_ATTENDANCE :: "string option"
  env_TOPIC_ID_TELEMETRY :: "string option"
  env_TOPIC_ID :: "string option"

definition object_prototype_keys :: "string list" where
  "object_prototype_keys =
     [''constructor'', ''__defineGetter__'', ''__defineSetter__'', ''hasOwnProperty'',
      ''__lookupGetter__'', ''__lookupSetter__'', ''isPrototypeOf'', ''propertyIsEnumerable'',
      ''toString'', ''valueOf'', ''__proto__'', ''toLocaleString'']"

datatype 'a js_property = Own 'a | Inherited | Undefined

definition js_get :: "(string \<rightharpoonup> 'a) \<Rightarrow> string \<Rightarrow> 'a js_property" where
  "js_get obj key =
     (case obj key of
        Some v \<Rightarrow> Own v
      | None \<Rightarrow> if key \<in> set object_prototype_keys then Inherited else Undefined)"

definition js_or :: "'a option \<Rightarrow> 'a option \<Rightarrow> 'a option" where
  "js_or a b = (case a of Some x \<Rightarrow> Some x | None \<Rightarrow> b)"

definition resolveTopicIdByType :: "server_config \<Rightarrow> string \<Rightarrow> string option" where
  "resolveTopicIdByType cfg type =
     (if type = ''attendance'' then js_or (env_TOPIC_ID_ATTENDANCE cfg) (env_TOPIC_ID cfg)
      else if type = ''telemetry'' then js_or (env_TOPIC_ID_TELEMETRY cfg) (env_TOPIC_ID cfg)
      else env_TOPIC_ID cfg)"

definition SALT_SECRET :: "server_config \<Rightarrow> string" where
  "SALT_SECRET cfg =
     (case env_SALT_SECRET cfg of Some s \<Rightarrow> s | None \<Rightarrow> ''default-secret-change-me'')"

definition LATE_TOLERANCE_MIN :: "server_config \<Rightarrow> int" where
  "LATE_TOLERANCE_MIN cfg = (case env_LATE_TOLERANCE_MIN cfg of Some n \<Rightarrow> n | None \<Rightarrow> 5)"

text \<open>
  \<^verbatim>\<open>findSession\<close> returns \<^verbatim>\<open>null\<close> for a class that is not found, and the session or
  \<^verbatim>\<open>undefined\<close> for a class of the schedule (\<open>Inr\<close>). For an inherited key,
  \<^verbatim>\<open>classSchedule.sessions\<close> is \<^verbatim>\<open>undefined\<close> and the call of \<^verbatim>\<open>find\<close> throws (\<open>Inl\<close>).
\<close>

definition findSession ::
  "node_runtime \<Rightarrow> server_config \<Rightarrow> string \<Rightarrow> string \<Rightarrow> string + session_info option" where
  "findSession lib cfg classId sessionId =
     (case js_get (scheduleData cfg) classId of
        Undefined \<Rightarrow> Inr None
      | Inherited \<Rightarrow> Inl (typeError_message lib ''classSchedule.sessions.find'')
      | Own classSchedule \<Rightarrow>
          Inr (find (\<lambda>s. session_id s = sessionId) (sessions classSchedule)))"

section \<open>The state of the server and the consensus service\<close>

text \<open>
  \<open>attendanceLog\<close> is the module-level \<^verbatim>\<open>Map\<close> from \<^verbatim>\<open>"classId:session"\<close> to a
  \<^verbatim>\<open>Set\<close> of uid hashes. Only membership, insertion and size of a set are used, so a
  set is a finite set of strings. Each \<^verbatim>\<open>Set\<close> object is the value of one key only, so
  the map holds the sets by value; the one place where a set is shared with a local
  variable (\<^verbatim>\<open>closeSession\<close>) is written out there.

  The topic of the consensus service is the list of messages it accepted.
  \<open>hcs_submitted\<close> lists every message a handler tried to publish, accepted or not.
  The outcome of the \<open>n\<close>-th submission is \<open>net n\<close>: \<open>Inr\<close> the consensus timestamp,
  or \<open>Inl\<close> the message of the error the SDK throws. A message counts as published when
  \<^verbatim>\<open>publishToHCS\<close> returns; a submission that throws leaves the topic as it was.
\<close>

record attendance_payload =
  p_type :: string
  p_classId :: string
  p_session :: string
  p_uidHash :: string
  p_status :: string
  p_ts :: int

record server_state =
  attendanceLog :: "string \<rightharpoonup> string fset"
  hcs_messages :: "(string option \<times> attendance_payload) list"
  hcs_submitted :: "(string option \<times> attendance_payload) list"

type_synonym hcs_network = "nat \<Rightarrow> string + string"

definition publishToHCS ::
  "hcs_network \<Rightarrow> string option \<Rightarrow> attendance_payload \<Rightarrow> server_state
     \<Rightarrow> (string + string) \<times> server_state" where
  "publishToHCS net topicId payload st =
     (case net (length (hcs_submitted st)) of
        Inl err \<Rightarrow> (Inl err, st\<lparr>hcs_submitted := hcs_submitted st @ [(topicId, payload)]\<rparr>)
      | Inr consensusTimestamp \<Rightarrow>
          (Inr consensusTimestamp,
           st\<lparr>hcs_messages := hcs_messages st @ [(topicId, payload)],
              hcs_submitted := hcs_submitted st @ [(topicId, payload)]\<rparr>))"

section \<open>POST /ingest/attendance\<close>

text \<open>
  A request body field is \<open>None\<close> when the JSON has no such field. \<^verbatim>\<open>!x\<close> holds of a
  missing field and of the empty string; \<^verbatim>\<open>ts || Date.now()\<close> takes the clock for a
  missing \<^verbatim>\<open>ts\<close> and for \<^verbatim>\<open>0\<close>. The clock reading \<open>now\<close> is an argument.
  A response is the HTTP status with the body's fields. The body of the handler is one
  \<^verbatim>\<open>try\<close> block: whatever throws inside it is answered 500 with the error's message.
\<close>

record attendance_request =
  req_classId :: "string option"
  req_session :: "string option"
  req_uidHash :: "string option"
  req_ts :: "int option"

datatype attendance_response =
    AttendanceError nat string
  | AttendanceSuccess string string "string option"

definition falsy :: "string option \<Rightarrow> bool" where
  "falsy x = (case x of None \<Rightarrow> True | Some s \<Rightarrow> s = [])"

definition handleAttendance ::
  "node_runtime \<Rightarrow> hcs_network \<Rightarrow> server_config \<Rightarrow> int \<Rightarrow> attendance_request
     \<Rightarrow> server_state \<Rightarrow> attendance_response \<times> server_state" where
  "handleAttendance lib net cfg now req st =
     (if falsy (req_classId req) \<or> falsy (req_session req) \<or> falsy (req_uidHash req)
      then (AttendanceError 400 ''Missing required fields: classId, session, uidHash'', st)
      else
        let classId = the (req_classId req);
            session = the (req_session req);
            uidHash = the (req_uidHash req)
        in case findSession lib cfg classId session of
             Inl err \<Rightarrow> (AttendanceError 500 err, st)
           | Inr None \<Rightarrow>
               (AttendanceError 404
                  (''Session '' @ session @ '' not found for class '' @ classId), st)
           | Inr (Some sessionInfo) \<Rightarrow>
               (let timestamp = (case req_ts req of
                                   None \<Rightarrow> now
                                 | Some t \<Rightarrow> if t = 0 then now else t);
                    status = determineStatus lib timestamp (session_startIso sessionInfo)
                               (LATE_TOLERANCE_MIN cfg);
                    logKey = classId @ '':'' @ session;
                    st1 = (if attendanceLog st logKey = None
                           then st\<lparr>attendanceLog := (attendanceLog st)(logKey \<mapsto> {||})\<rparr>
                           else st);
                    st2 = st1\<lparr>attendanceLog := (attendanceLog st1)
                                 (logKey \<mapsto> finsert uidHash (the (attendanceLog st1 logKey)))\<rparr>;
                    payload = \<lparr>p_type = ''attendance'', p_classId = classId,
                               p_session = session, p_uidHash = uidHash,
                               p_status = status, p_ts = timestamp\<rparr>;
                    topicId = resolveTopicIdByType cfg ''attendance''
                in case publishToHCS net topicId payload st2 of
                     (Inl err, st3) \<Rightarrow> (AttendanceError 500 err, st3)
                   | (Inr consensusTimestamp, st3) \<Rightarrow>
                       (AttendanceSuccess status consensusTimestamp topicId, st3)))"

section \<open>POST /admin/closeSession\<close>

text \<open>
  \<^verbatim>\<open>const attendedHashes = attendanceLog.get(logKey) || new Set()\<close>: when the key has a
  set, the local variable is that very object, and \<^verbatim>\<open>attendedHashes.add\<close> in the loop
  changes the set the map holds at once (\<open>shared\<close> below); when the key has none, the
  local set is a new object, which enters the map only at \<^verbatim>\<open>attendanceLog.set\<close> after
  the loop. \<^verbatim>\<open>publishToHCS\<close> is awaited inside the handler's \<^verbatim>\<open>try\<close>: an error it
  throws leaves the loop and reaches the \<^verbatim>\<open>catch\<close>, which answers 500. A roster found
  under an inherited key passes \<^verbatim>\<open>if (!roster)\<close>; its \<^verbatim>\<open>students\<close> is \<^verbatim>\<open>undefined\<close>, and
  the \<^verbatim>\<open>for ... of\<close> over it throws before anything is published.
\<close>

record absentee =
  a_studentId :: string
  a_uidHash :: string

record close_request =
  creq_classId :: "string option"
  creq_session :: "string option"

record close_summary =
  cs_classId :: string
  cs_session :: string
  cs_totalStudents :: nat
  cs_attended :: int
  cs_markedAbsent :: nat
  cs_absentees :: "absentee list"

datatype close_response =
    CloseError nat string
  | CloseSuccess close_summary

definition absent_payload :: "string \<Rightarrow> string \<Rightarrow> int \<Rightarrow> string \<Rightarrow> attendance_payload" where
  "absent_payload classId session timestamp uidHash =
     \<lparr>p_type = ''attendance'', p_classId = classId, p_session = session,
      p_uidHash = uidHash, p_status = ''absent_marked'', p_ts = timestamp\<rparr>"

fun absentee_loop ::
  "node_runtime \<Rightarrow> hcs_network \<Rightarrow> string \<Rightarrow> string \<Rightarrow> string \<Rightarrow> int \<Rightarrow> string option
     \<Rightarrow> string \<Rightarrow> bool \<Rightarrow> student list \<Rightarrow> string fset \<Rightarrow> absentee list \<Rightarrow> server_state
     \<Rightarrow> (string + string fset \<times> absentee list) \<times> server_state" where
  "absentee_loop lib net classId session sessionSalt timestamp topicId logKey shared
     [] attendedHashes absentees st = (Inr (attendedHashes, absentees), st)"
| "absentee_loop lib net classId session sessionSalt timestamp topicId logKey shared
     (student # rest) attendedHashes absentees st =
     (let uidHash = computeUidHash lib (cardUidHex student) sessionSalt
      in if uidHash |\<notin>| attendedHashes
         then
           (case publishToHCS net topicId
                   (absent_payload classId session timestamp uidHash) st of
              (Inl err, st1) \<Rightarrow> (Inl err, st1)
            | (Inr consensusTimestamp, st1) \<Rightarrow>
                absentee_loop lib net classId session sessionSalt timestamp topicId logKey
                  shared rest
                  (finsert uidHash attendedHashes)
                  (absentees @ [\<lparr>a_studentId = studentId student, a_uidHash = uidHash\<rparr>])
                  (if shared
                   then st1\<lparr>attendanceLog := (attendanceLog st1)
                                (logKey \<mapsto> finsert uidHash attendedHashes)\<rparr>
                   else st1))
         else absentee_loop lib net classId session sessionSalt timestamp topicId logKey
                shared rest attendedHashes absentees st)"

definition closeSession ::
  "node_runtime \<Rightarrow> hcs_network \<Rightarrow> server_config \<Rightarrow> int \<Rightarrow> close_request
     \<Rightarrow> server_state \<Rightarrow> close_response \<times> server_state" where
  "closeSession lib net cfg now req st =
     (if falsy (creq_classId req) \<or> falsy (creq_session req)
      then (CloseError 400 ''Missing classId or session'', st)
      else
        let classId = the (creq_classId req);
            session = the (creq_session req)
        in case findSession lib cfg classId session of
             Inl err \<Rightarrow> (CloseError 500 err, st)
           | Inr None \<Rightarrow> (CloseError 404 (''Session '' @ session @ '' not found''), st)
           | Inr (Some sessionInfo) \<Rightarrow>
               (case js_get (rosterData cfg) classId of
                  Undefined \<Rightarrow>
                    (CloseError 404 (''Roster not found for class '' @ classId), st)
                | Inherited \<Rightarrow> (CloseError 500 (typeError_message lib ''roster.students''), st)
                | Own roster \<Rightarrow>
                    (let logKey = classId @ '':'' @ session;
                         shared = (attendanceLog st logKey \<noteq> None);
                         attendedHashes = (case attendanceLog st logKey of
                                             Some hashes \<Rightarrow> hashes
                                           | None \<Rightarrow> {||});
                         sessionSalt = deriveSessionSalt lib (SALT_SECRET cfg) classId
                                         (session_startIso sessionInfo);
                         timestamp = now;
                         topicId = resolveTopicIdByType cfg ''attendance''
                     in case absentee_loop lib net classId session sessionSalt timestamp
                               topicId logKey shared (students roster) attendedHashes [] st of
                          (Inl err, st1) \<Rightarrow> (CloseError 500 err, st1)
                        | (Inr (attendedHashes1, absentees1), st1) \<Rightarrow>
                            (CloseSuccess
                               \<lparr>cs_classId = classId, cs_session = session,
                                cs_totalStudents = length (students roster),
                                cs_attended = int (fcard attendedHashes1)
                                             - int (length absentees1),
                                cs_markedAbsent = length absentees1,
                                cs_absentees = absentees1\<rparr>,
                             st1\<lparr>attendanceLog := (attendanceLog st1)
                                    (logKey \<mapsto> attendedHashes1)\<rparr>))))"

section \<open>Notation for the statements\<close>

text \<open>
  The uid hash the loop of \<^verbatim>\<open>closeSession\<close> computes for a roster member, the entry it
  pushes to \<^verbatim>\<open>absentees\<close> and the message it submits for that member.
\<close>

abbreviation uidHashOf :: "node_runtime \<Rightarrow> string \<Rightarrow> student \<Rightarrow> string" where
  "uidHashOf lib sessionSalt s \<equiv> computeUidHash lib (cardUidHex s) sessionSalt"

abbreviation absenteeOf :: "node_runtime \<Rightarrow> string \<Rightarrow> student \<Rightarrow> absentee" where
  "absenteeOf lib sessionSalt s \<equiv>
     \<lparr>a_studentId = studentId s, a_uidHash = computeUidHash lib (cardUidHex s) sessionSalt\<rparr>"

abbreviation absentMessage ::
  "node_runtime \<Rightarrow> string \<Rightarrow> string \<Rightarrow> string \<Rightarrow> int \<Rightarrow> string option \<Rightarrow> student
     \<Rightarrow> string option \<times> attendance_payload" where
  "absentMessage lib classId session sessionSalt timestamp topicId s \<equiv>
     (topicId, absent_payload classId session timestamp
                 (computeUidHash lib (cardUidHex s) sessionSalt))"

section \<open>Example data\<close>

text \<open>
  Stand-ins for the runtime, used only to evaluate the model at concrete inputs: the hash
  functions return their input, so they never collide, and the date parser knows the
  session starts the examples use. Every number the examples meet is a double, which
  rounding leaves as it is, but one: \<open>9007199254800001\<close> lies halfway between the doubles
  \<open>9007199254800000\<close> and \<open>9007199254800002\<close> and is rounded to the former, whose
  significand is even. The messages are those of V8.
\<close>

definition example_runtime :: node_runtime where
  "example_runtime =
     \<lparr>createHash_sha256 = (\<lambda>data. data),
      createHmac_sha256 = (\<lambda>secret data. secret @ ''|'' @ data),
      date_getTime = (\<lambda>iso. if iso = ''1970-01-01T00:00:00.000Z'' then Some 0
                             else if iso = ''1969-12-31T23:59:59.999Z'' then Some (- 1)
                             else if iso = ''2025-10-01T09:00:00+01:00'' then Some 1759305600000
                             else None),
      js_round = (\<lambda>x. if x = 9007199254800001 then 9007199254800000 else x),
      typeError_message =
        (\<lambda>expression. if expression = ''roster.students''
                      then ''roster.students is not iterable''
                      else ''Cannot read properties of undefined (reading 'find')'')\<rparr>"

definition example_config :: server_config where
  "example_config =
     \<lparr>scheduleData =
        [''math-9a'' \<mapsto>
           \<lparr>sessions = [\<lparr>session_id = ''2025-10-01-0900'',
                          session_startIso = ''2025-10-01T09:00:00+01:00''\<rparr>]\<rparr>,
         ''physics-10b'' \<mapsto>
           \<lparr>sessions = [\<lparr>session_id = ''2025-10-01-1100'',
                          session_startIso = ''2025-10-01T11:00:00+01:00''\<rparr>]\<rparr>],
      rosterData =
        [''math-9a'' \<mapsto>
           \<lparr>students = [\<lparr>studentId = ''S001'', cardUidHex = ''04A1''\<rparr>,
                          \<lparr>studentId = ''S002'', cardUidHex = ''04B2''\<rparr>,
                          \<lparr>studentId = ''S003'', cardUidHex = ''04C3''\<rparr>]\<rparr>],
      env_SALT_SECRET = Some ''k'',
      env_LATE_TOLERANCE_MIN = None,
      env_TOPIC_ID_ATTENDANCE = None,
      env_TOPIC_ID_TELEMETRY = None,
      env_TOPIC_ID = Some ''0.0.1001''\<rparr>"


definition initial_state :: server_state where
  "initial_state = \<lparr>attendanceLog = Map.empty, hcs_messages = [], hcs_submitted = []\<rparr>"

definition example_close :: close_request where
  "example_close = \<lparr>creq_classId = Some ''math-9a'', creq_session = Some ''2025-10-01-0900''\<rparr>"

definition example_tap :: "string \<Rightarrow> attendance_request" where
  "example_tap uidHash =
     \<lparr>req_classId = Some ''math-9a'', req_session = Some ''2025-10-01-0900'',
      req_uidHash = Some uidHash, req_ts = Some 1759305660000\<rparr>"

text \<open>A consensus service that accepts every message, one that is down, and one that
  fails on a single submission.\<close>

definition net_ok :: hcs_network where
  "net_ok = (\<lambda>n. Inr ''1759305661.000000000'')"

definition net_down :: hcs_network where
  "net_down = (\<lambda>n. Inl ''timeout'')"


text \<open>The pseudonym of a card in the example session, and a state whose attendance log
  holds the given set for that session.\<close>

definition example_hash :: "node_runtime \<Rightarrow> string \<Rightarrow> string" where
  "example_hash lib cardUid =
     computeUidHash lib cardUid
       (deriveSessionSalt lib ''k'' ''math-9a'' ''2025-10-01T09:00:00+01:00'')"

definition ledger_state :: "string fset \<Rightarrow> server_state" where
  "ledger_state hashes =
     initial_state\<lparr>attendanceLog := [''math-9a:2025-10-01-0900'' \<mapsto> hashes]\<rparr>"

section \<open>Lemmas about the helpers\<close>

lemma fixed_length_not_inj:
  fixes f :: "string \<Rightarrow> string"
  assumes len: "\<And>x. length (f x) = n"
  shows "\<not> inj f"
proof
  assume "inj f"
  have "range f \<subseteq> {s. set s \<subseteq> UNIV \<and> length s = n}"
    using len by auto
  moreover have "finite {s :: string. set s \<subseteq> UNIV \<and> length s = n}"
    by (rule finite_lists_length_eq) simp
  ultimately have "finite (range f)"
    by (rule finite_subset)
  from this \<open>inj f\<close> have "finite (UNIV :: string set)"
    by (rule finite_imageD)
  then show False
    by (simp add: infinite_UNIV_listI)
qed

lemma js_get_own: "obj key = Some v \<Longrightarrow> js_get obj key = Own v"
  by (simp add: js_get_def)

lemma findSession_None_iff:
  "findSession lib cfg classId sessionId = Inr None \<longleftrightarrow>
     (case js_get (scheduleData cfg) classId of
        Undefined \<Rightarrow> True
      | Inherited \<Rightarrow> False
      | Own classSchedule \<Rightarrow> \<forall>s \<in> set (sessions classSchedule). session_id s \<noteq> sessionId)"
  by (auto simp: findSession_def find_None_iff split: js_property.splits)

section \<open>Lemmas about the loop of closeSession\<close>

lemma loop_skip:
  "\<forall>s \<in> set xs. uidHashOf lib salt s |\<in>| A \<Longrightarrow>
   absentee_loop lib net classId session salt ts topicId key shared xs A acc st
     = (Inr (A, acc), st)"
  by (induction xs) (simp_all add: Let_def)

lemma loop_success_props:
  "absentee_loop lib net classId session salt ts topicId key shared xs A acc st
     = (Inr (A', acc'), st') \<Longrightarrow>
   A' = A |\<union>| fset_of_list (map (uidHashOf lib salt) xs)
   \<and> int (fcard A') - int (length acc') = int (fcard A) - int (length acc)"
proof (induction xs arbitrary: A acc st)
  case Nil
  then show ?case by simp
next
  case (Cons x xs)
  show ?case
  proof (cases "uidHashOf lib salt x |\<in>| A")
    case True
    with Cons.prems have "absentee_loop lib net classId session salt ts topicId key shared xs A acc st
        = (Inr (A', acc'), st')" by (simp add: Let_def)
    from Cons.IH[OF this] True show ?thesis by auto
  next
    case False
    obtain r st1 where pub: "publishToHCS net topicId
        (absent_payload classId session ts (uidHashOf lib salt x)) st = (r, st1)"
      by (cases "publishToHCS net topicId
        (absent_payload classId session ts (uidHashOf lib salt x)) st")
    show ?thesis
    proof (cases r)
      case (Inl err)
      with Cons.prems False pub show ?thesis by (simp add: Let_def)
    next
      case (Inr t)
      with Cons.prems False pub
      have "absentee_loop lib net classId session salt ts topicId key shared xs
              (finsert (uidHashOf lib salt x) A) (acc @ [absenteeOf lib salt x])
              (if shared then st1\<lparr>attendanceLog := (attendanceLog st1)
                                (key \<mapsto> finsert (uidHashOf lib salt x) A)\<rparr> else st1)
            = (Inr (A', acc'), st')"
        by (simp add: Let_def)
      from Cons.IH[OF this] False show ?thesis
        by (auto simp: fcard_finsert_disjoint)
    qed
  qed
qed


lemma filter_absent_finsert:
  assumes "uidHashOf lib salt x \<notin> set (map (uidHashOf lib salt) xs)"
  shows "filter (\<lambda>s. uidHashOf lib salt s |\<notin>| finsert (uidHashOf lib salt x) A) xs
       = filter (\<lambda>s. uidHashOf lib salt s |\<notin>| A) xs"
  using assms by (induction xs) auto

lemma publish_ok:
  "net (length (hcs_submitted st)) = Inr t \<Longrightarrow>
   publishToHCS net topicId payload st =
     (Inr t, st\<lparr>hcs_messages := hcs_messages st @ [(topicId, payload)],
                hcs_submitted := hcs_submitted st @ [(topicId, payload)]\<rparr>)"
  by (simp add: publishToHCS_def)


lemma loop_all_published:
  assumes "\<And>n. \<exists>t. net n = Inr t"
      and "distinct (map (uidHashOf lib salt) xs)"
      and "shared \<Longrightarrow> attendanceLog st key = Some A"
  shows "absentee_loop lib net classId session salt ts topicId key shared xs A acc st
     = (Inr (A |\<union>| fset_of_list (map (uidHashOf lib salt) xs),
             acc @ map (absenteeOf lib salt) (filter (\<lambda>s. uidHashOf lib salt s |\<notin>| A) xs)),
        st\<lparr>attendanceLog :=
              (if shared
               then (attendanceLog st)(key \<mapsto> A |\<union>| fset_of_list (map (uidHashOf lib salt) xs))
               else attendanceLog st),
            hcs_messages := hcs_messages st
              @ map (absentMessage lib classId session salt ts topicId)
                  (filter (\<lambda>s. uidHashOf lib salt s |\<notin>| A) xs),
            hcs_submitted := hcs_submitted st
              @ map (absentMessage lib classId session salt ts topicId)
                  (filter (\<lambda>s. uidHashOf lib salt s |\<notin>| A) xs)\<rparr>)"
  using assms(2,3)
proof (induction xs arbitrary: A acc st)
  case Nil
  then show ?case by (cases shared) (simp_all add: map_upd_triv)
next
  case (Cons x xs)
  let ?h = "uidHashOf lib salt x"
  from Cons.prems(1) have dist: "distinct (map (uidHashOf lib salt) xs)"
    and fresh: "?h \<notin> set (map (uidHashOf lib salt) xs)" by simp_all
  show ?case
  proof (cases "?h |\<in>| A")
    case True
    then have "finsert ?h (A |\<union>| fset_of_list (map (uidHashOf lib salt) xs))
             = A |\<union>| fset_of_list (map (uidHashOf lib salt) xs)" by auto
    with True Cons.IH[OF dist Cons.prems(2), of acc] show ?thesis
      by (simp add: Let_def)
  next
    case False
    obtain t where t: "net (length (hcs_submitted st)) = Inr t" using assms(1) by blast
    let ?st1 = "st\<lparr>hcs_messages := hcs_messages st
                      @ [absentMessage lib classId session salt ts topicId x],
                    hcs_submitted := hcs_submitted st
                      @ [absentMessage lib classId session salt ts topicId x]\<rparr>"
    let ?st2 = "if shared then ?st1\<lparr>attendanceLog := (attendanceLog ?st1)
                                (key \<mapsto> finsert ?h A)\<rparr> else ?st1"
    have step: "absentee_loop lib net classId session salt ts topicId key shared (x # xs) A acc st
        = absentee_loop lib net classId session salt ts topicId key shared xs
            (finsert ?h A) (acc @ [absenteeOf lib salt x]) ?st2"
      using False t by (simp add: Let_def publish_ok[where net = net and st = st])
    have log2: "shared \<Longrightarrow> attendanceLog ?st2 key = Some (finsert ?h A)" by simp
    have un: "finsert ?h A |\<union>| fset_of_list (map (uidHashOf lib salt) xs)
            = finsert ?h (A |\<union>| fset_of_list (map (uidHashOf lib salt) xs))" by auto
    have IH': "absentee_loop lib net classId session salt ts topicId key shared xs
            (finsert ?h A) (acc @ [absenteeOf lib salt x]) ?st2
       = (Inr (finsert ?h A |\<union>| fset_of_list (map (uidHashOf lib salt) xs),
               (acc @ [absenteeOf lib salt x])
                 @ map (absenteeOf lib salt) (filter (\<lambda>s. uidHashOf lib salt s |\<notin>| A) xs)),
          ?st2\<lparr>attendanceLog :=
                (if shared
                 then (attendanceLog ?st2)
                        (key \<mapsto> finsert ?h A |\<union>| fset_of_list (map (uidHashOf lib salt) xs))
                 else attendanceLog ?st2),
              hcs_messages := hcs_messages ?st2
                @ map (absentMessage lib classId session salt ts topicId)
                    (filter (\<lambda>s. uidHashOf lib salt s |\<notin>| A) xs),
              hcs_submitted := hcs_submitted ?st2
                @ map (absentMessage lib classId session salt ts topicId)
                    (filter (\<lambda>s. uidHashOf lib salt s |\<notin>| A) xs)\<rparr>)"
      using Cons.IH[OF dist log2, of "acc @ [absenteeOf lib salt x]"]
      unfolding filter_absent_finsert[OF fresh] .
    show ?thesis
      unfolding step IH' using False
      by (cases shared) (auto simp: un intro!: server_state.equality)
  qed
qed




section \<open>Lemmas about the handlers\<close>

lemma fcard_union_roster:
  assumes "distinct (map (uidHashOf lib salt) xs)"
  shows "fcard (A |\<union>| fset_of_list (map (uidHashOf lib salt) xs))
       = fcard A + length (filter (\<lambda>s. uidHashOf lib salt s |\<notin>| A) xs)"
  using assms
proof (induction xs arbitrary: A)
  case Nil
  then show ?case by simp
next
  case (Cons x xs)
  let ?h = "uidHashOf lib salt x"
  from Cons.prems have dist: "distinct (map (uidHashOf lib salt) xs)"
    and fresh: "?h \<notin> set (map (uidHashOf lib salt) xs)" by simp_all
  show ?case
  proof (cases "?h |\<in>| A")
    case True
    then have "A |\<union>| fset_of_list (map (uidHashOf lib salt) (x # xs))
             = A |\<union>| fset_of_list (map (uidHashOf lib salt) xs)" by auto
    with True Cons.IH[OF dist, of A] show ?thesis by simp
  next
    case False
    have "A |\<union>| fset_of_list (map (uidHashOf lib salt) (x # xs))
        = finsert ?h A |\<union>| fset_of_list (map (uidHashOf lib salt) xs)" by auto
    with False Cons.IH[OF dist, of "finsert ?h A"] filter_absent_finsert[OF fresh, of A]
    show ?thesis by (simp add: fcard_finsert_disjoint)
  qed
qed

lemma closeSession_all_published:
  assumes req: "creq_classId req = Some classId" "creq_session req = Some session"
               "classId \<noteq> []" "session \<noteq> []"
      and found: "findSession lib cfg classId session = Inr (Some sessionInfo)"
      and ros: "rosterData cfg classId = Some r"
      and ok: "\<And>n. \<exists>t. net n = Inr t"
      and salt: "salt = deriveSessionSalt lib (SALT_SECRET cfg) classId (session_startIso sessionInfo)"
      and key: "key = classId @ '':'' @ session"
      and L: "L = (case attendanceLog st key of Some hashes \<Rightarrow> hashes | None \<Rightarrow> {||})"
      and dist: "distinct (map (uidHashOf lib salt) (students r))"
      and todo: "todo = filter (\<lambda>s. uidHashOf lib salt s |\<notin>| L) (students r)"
  shows "closeSession lib net cfg now req st =
     (CloseSuccess
        \<lparr>cs_classId = classId, cs_session = session,
         cs_totalStudents = length (students r),
         cs_attended = int (fcard L),
         cs_markedAbsent = length todo,
         cs_absentees = map (absenteeOf lib salt) todo\<rparr>,
      st\<lparr>attendanceLog := (attendanceLog st)
            (key \<mapsto> L |\<union>| fset_of_list (map (uidHashOf lib salt) (students r))),
         hcs_messages := hcs_messages st
            @ map (absentMessage lib classId session salt now
                     (resolveTopicIdByType cfg ''attendance'')) todo,
         hcs_submitted := hcs_submitted st
            @ map (absentMessage lib classId session salt now
                     (resolveTopicIdByType cfg ''attendance'')) todo\<rparr>)"
proof -
  let ?shared = "attendanceLog st key \<noteq> None"
  have sh: "?shared \<Longrightarrow> attendanceLog st key = Some L" using L by auto
  note loop = loop_all_published[where net = net and lib = lib and salt = salt
      and xs = "students r" and shared = ?shared and st = st and key = key and A = L
      and acc = "[]" and classId = classId and session = session and ts = now
      and topicId = "resolveTopicIdByType cfg ''attendance''", OF ok dist sh]
  have card: "int (fcard (L |\<union>| fset_of_list (map (uidHashOf lib salt) (students r))))
              - int (length todo) = int (fcard L)"
    using fcard_union_roster[OF dist, of L] todo by simp
  show ?thesis
    using req found js_get_own[where obj = "rosterData cfg", OF ros] loop card
    unfolding closeSession_def todo L salt key
    by (cases "attendanceLog st (classId @ '':'' @ session)")
       (auto simp: falsy_def Let_def intro!: server_state.equality)
qed




lemma handleAttendance_found:
  assumes req: "req_classId req = Some classId" "req_session req = Some session"
               "req_uidHash req = Some uidHash"
               "classId \<noteq> []" "session \<noteq> []" "uidHash \<noteq> []"
      and found: "findSession lib cfg classId session = Inr (Some sessionInfo)"
      and key: "key = classId @ '':'' @ session"
      and L: "L = (case attendanceLog st key of Some hashes \<Rightarrow> hashes | None \<Rightarrow> {||})"
      and ts: "timestamp = (case req_ts req of None \<Rightarrow> now | Some t \<Rightarrow> if t = 0 then now else t)"
      and status: "status = determineStatus lib timestamp (session_startIso sessionInfo)
                              (LATE_TOLERANCE_MIN cfg)"
      and msg: "msg = (resolveTopicIdByType cfg ''attendance'',
                       \<lparr>p_type = ''attendance'', p_classId = classId, p_session = session,
                        p_uidHash = uidHash, p_status = status, p_ts = timestamp\<rparr>)"
  shows "handleAttendance lib net cfg now req st =
     (case net (length (hcs_submitted st)) of
        Inl err \<Rightarrow>
          (AttendanceError 500 err,
           st\<lparr>attendanceLog := (attendanceLog st)(key \<mapsto> finsert uidHash L),
              hcs_submitted := hcs_submitted st @ [msg]\<rparr>)
      | Inr consensusTimestamp \<Rightarrow>
          (AttendanceSuccess status consensusTimestamp (resolveTopicIdByType cfg ''attendance''),
           st\<lparr>attendanceLog := (attendanceLog st)(key \<mapsto> finsert uidHash L),
              hcs_messages := hcs_messages st @ [msg],
              hcs_submitted := hcs_submitted st @ [msg]\<rparr>))"
  using req found
  unfolding handleAttendance_def msg status ts L key
  by (cases "attendanceLog st (classId @ '':'' @ session)";
      cases "net (length (hcs_submitted st))")
     (auto simp: falsy_def Let_def publishToHCS_def intro!: server_state.equality)


lemma present_members_less_than_ledger:
  assumes dist: "distinct (map (uidHashOf lib salt) xs)"
      and inA: "p |\<in>| A"
      and foreign: "p \<notin> set (map (uidHashOf lib salt) xs)"
  shows "length (filter (\<lambda>s. uidHashOf lib salt s |\<in>| A) xs) < fcard A"
proof -
  let ?present = "filter (\<lambda>s. uidHashOf lib salt s |\<in>| A) xs"
  have "distinct (map (uidHashOf lib salt) ?present)"
    using dist by (rule distinct_map_filter)
  then have "length ?present = card (set (map (uidHashOf lib salt) ?present))"
    using distinct_card by fastforce
  also have "set (map (uidHashOf lib salt) ?present) \<subseteq> fset A - {p}"
    using foreign by auto
  then have "card (set (map (uidHashOf lib salt) ?present)) \<le> card (fset A - {p})"
    by (intro card_mono) simp_all
  also have "card (fset A - {p}) < card (fset A)"
    using inA by (intro card_Diff1_less) simp_all
  finally show ?thesis by (simp add: fcard.rep_eq)
qed

lemma ledger_larger_than_roster:
  assumes dist: "distinct (map (uidHashOf lib salt) xs)"
      and inA: "p |\<in>| A"
      and foreign: "p \<notin> set (map (uidHashOf lib salt) xs)"
  shows "length xs < fcard (A |\<union>| fset_of_list (map (uidHashOf lib salt) xs))"
proof -
  have "length xs = length (filter (\<lambda>s. uidHashOf lib salt s |\<in>| A) xs)
                  + length (filter (\<lambda>s. uidHashOf lib salt s |\<notin>| A) xs)"
    using sum_length_filter_compl[of "\<lambda>s. uidHashOf lib salt s |\<in>| A" xs] by simp
  with present_members_less_than_ledger[OF assms] fcard_union_roster[OF dist, of A]
  show ?thesis by simp
qed

section \<open>Lemmas about doubles\<close>

lemma binary64I:
  "\<bar>m\<bar> < 2 ^ 53 \<Longrightarrow> a \<le> 971 \<Longrightarrow> b \<le> 1074 \<Longrightarrow> x = of_int m * 2 ^ a / 2 ^ b \<Longrightarrow> x \<in> binary64"
  unfolding binary64_def by blast

lemma exact_integer_binary64:
  assumes "exact_integer n"
  shows "(of_int n :: rat) \<in> binary64"
proof (cases "\<bar>n\<bar> < 2 ^ 53")
  case True
  then show ?thesis by (rule binary64I[where a = 0 and b = 0]) simp_all
next
  case False
  with assms have "n = 9007199254740992 \<or> n = - 9007199254740992"
    by (simp add: exact_integer_def, arith)
  then have "\<bar>n div 2\<bar> < 2 ^ 53" and "(of_int n :: rat) = of_int (n div 2) * 2 ^ 1 / 2 ^ 0"
    by auto
  then show ?thesis by (intro binary64I[where a = 1 and b = 0]) simp_all
qed

lemma round_exact_integer:
  assumes "rounds_to_nearest lib" and "exact_integer n"
  shows "js_round lib (of_int n) = of_int n"
proof -
  have "\<bar>(of_int n :: rat)\<bar> \<le> 2 ^ 53"
    using assms(2) unfolding exact_integer_def
    by (metis of_int_abs of_int_le_iff of_int_numeral of_int_power)
  with assms(1) exact_integer_binary64[OF assms(2)]
  have "\<bar>js_round lib (of_int n) - of_int n\<bar> \<le> \<bar>(of_int n :: rat) - of_int n\<bar>"
    unfolding rounds_to_nearest_def by blast
  then show ?thesis by simp
qed

lemma rounded_quotient_le:
  assumes near: "rounds_to_nearest lib"
      and n: "exact_integer n"
      and window: "\<bar>tol\<bar> * 60000 < 2 ^ 53"
  shows "js_round lib (of_int n / 60000) \<le> of_int tol \<longleftrightarrow> (of_int n :: rat) / 60000 \<le> of_int tol"
proof -
  let ?q = "(of_int n :: rat) / 60000"
  let ?r = "js_round lib (of_int n / 60000)"
  have "\<bar>(of_int n :: rat)\<bar> \<le> 2 ^ 53"
    using n unfolding exact_integer_def
    by (metis of_int_abs of_int_le_iff of_int_numeral of_int_power)
  then have q: "\<bar>?q\<bar> \<le> 2 ^ 53" by simp
  have nearest: "\<bar>?r - ?q\<bar> \<le> \<bar>d - ?q\<bar>" if "d \<in> binary64" for d
    using near q that unfolding rounds_to_nearest_def by blast
  have w: "\<bar>tol\<bar> * 60000 < 9007199254740992" using window by simp
  then have "\<bar>tol\<bar> \<le> 9007199254740992" by arith
  then have "exact_integer tol" by (simp add: exact_integer_def)
  then have tol_double: "(of_int tol :: rat) \<in> binary64" by (rule exact_integer_binary64)
  from w have "\<bar>tol * 32768 + 1\<bar> < 9007199254740992" by arith
  then have "\<bar>tol * 32768 + 1\<bar> < 2 ^ 53" by simp
  then have above_double: "(of_int tol :: rat) + 1 / 32768 \<in> binary64"
    by (rule binary64I[where a = 0 and b = 15]) (simp_all add: field_simps)
  show ?thesis
  proof
    assume le: "?r \<le> of_int tol"
    show "?q \<le> of_int tol"
    proof (rule ccontr)
      assume "\<not> ?q \<le> of_int tol"
      then have "(of_int (tol * 60000) :: rat) < of_int n" by (simp add: field_simps)
      then have "tol * 60000 < n" by (simp only: of_int_less_iff)
      then have "tol * 60000 + 1 \<le> n" by simp
      then have "(of_int (tol * 60000 + 1) :: rat) \<le> of_int n" by (simp only: of_int_le_iff)
      then have far: "of_int tol + 1 / 60000 \<le> ?q" by (simp add: field_simps)
      from nearest[OF above_double] le far show False by linarith
    qed
  next
    assume le: "?q \<le> of_int tol"
    show "?r \<le> of_int tol"
    proof (rule ccontr)
      assume "\<not> ?r \<le> of_int tol"
      with nearest[OF tol_double] le show False by linarith
    qed
  qed
qed

lemma determineStatus_exact:
  assumes start: "date_getTime lib startIso = Some start"
      and near: "rounds_to_nearest lib"
      and window: "\<bar>tol\<bar> * 60000 < 2 ^ 53"
      and diff: "exact_integer (ts - start)"
  shows "determineStatus lib ts startIso tol =
           (if (of_int (ts - start) :: rat) / 60000 \<le> of_int tol
            then ''present_on_time'' else ''late'')"
proof -
  have "js_round lib (of_int ts - of_int start) = of_int (ts - start)"
    using round_exact_integer[OF near diff] by simp
  then show ?thesis
    using start rounded_quotient_le[OF near diff window]
    by (simp add: determineStatus_def withinTolerance_def Let_def)
qed

section \<open>Requests that are rejected\<close>

lemma rejected_attendance:
  "falsy (req_classId req) \<or> falsy (req_session req) \<or> falsy (req_uidHash req) \<Longrightarrow>
     handleAttendance lib net cfg now req st =
       (AttendanceError 400 ''Missing required fields: classId, session, uidHash'', st)"
  "req_classId req = Some classId \<Longrightarrow> req_session req = Some session \<Longrightarrow>
   req_uidHash req = Some uidHash \<Longrightarrow> classId \<noteq> [] \<Longrightarrow> session \<noteq> [] \<Longrightarrow> uidHash \<noteq> [] \<Longrightarrow>
   findSession lib cfg classId session = Inr None \<Longrightarrow>
     handleAttendance lib net cfg now req st =
       (AttendanceError 404 (''Session '' @ session @ '' not found for class '' @ classId), st)"
  "req_classId req = Some classId \<Longrightarrow> req_session req = Some session \<Longrightarrow>
   req_uidHash req = Some uidHash \<Longrightarrow> classId \<noteq> [] \<Longrightarrow> session \<noteq> [] \<Longrightarrow> uidHash \<noteq> [] \<Longrightarrow>
   findSession lib cfg classId session = Inl err \<Longrightarrow>
     handleAttendance lib net cfg now req st = (AttendanceError 500 err, st)"
  by (simp_all add: handleAttendance_def falsy_def)

lemma rejected_close:
  "falsy (creq_classId creq) \<or> falsy (creq_session creq) \<Longrightarrow>
     closeSession lib net cfg now creq st = (CloseError 400 ''Missing classId or session'', st)"
  "creq_classId creq = Some classId \<Longrightarrow> creq_session creq = Some session \<Longrightarrow>
   classId \<noteq> [] \<Longrightarrow> session \<noteq> [] \<Longrightarrow> findSession lib cfg classId session = Inr None \<Longrightarrow>
     closeSession lib net cfg now creq st =
       (CloseError 404 (''Session '' @ session @ '' not found''), st)"
  "creq_classId creq = Some classId \<Longrightarrow> creq_session creq = Some session \<Longrightarrow>
   classId \<noteq> [] \<Longrightarrow> session \<noteq> [] \<Longrightarrow> findSession lib cfg classId session = Inl err \<Longrightarrow>
     closeSession lib net cfg now creq st = (CloseError 500 err, st)"
  "creq_classId creq = Some classId \<Longrightarrow> creq_session creq = Some session \<Longrightarrow>
   classId \<noteq> [] \<Longrightarrow> session \<noteq> [] \<Longrightarrow>
   findSession lib cfg classId session = Inr (Some sessionInfo) \<Longrightarrow>
   js_get (rosterData cfg) classId = Undefined \<Longrightarrow>
     closeSession lib net cfg now creq st =
       (CloseError 404 (''Roster not found for class '' @ classId), st)"
  "creq_classId creq = Some classId \<Longrightarrow> creq_session creq = Some session \<Longrightarrow>
   classId \<noteq> [] \<Longrightarrow> session \<noteq> [] \<Longrightarrow>
   findSession lib cfg classId session = Inr (Some sessionInfo) \<Longrightarrow>
   js_get (rosterData cfg) classId = Inherited \<Longrightarrow>
     closeSession lib net cfg now creq st =
       (CloseError 500 (typeError_message lib ''roster.students''), st)"
  by (simp_all add: closeSession_def falsy_def)

section \<open>C1: counts of a reconciliation\<close>




section \<open>C2: a publish that fails during a close\<close>




section \<open>C3: closing a session twice\<close>

text \<open>
  C3. When a close of a session has succeeded (every publish of its run succeeded), a second
  close of the same session, run on the state the first one left, publishes nothing and
  changes nothing: it answers \<open>markedAbsent = 0\<close> with an empty list of absentees, whatever
  the consensus service would do.
\<close>

theorem C3_second_close_marks_nobody:
  assumes first: "closeSession lib net cfg now req st = (CloseSuccess summary, st1)"
  shows "closeSession lib net2 cfg now2 req st1 =
     (CloseSuccess (summary\<lparr>cs_attended := cs_attended summary + int (cs_markedAbsent summary),
                            cs_markedAbsent := 0, cs_absentees := []\<rparr>),
      st1)"
proof -
  let ?classId = "the (creq_classId req)" and ?session = "the (creq_session req)"
  let ?key = "?classId @ '':'' @ ?session"
  let ?topic = "resolveTopicIdByType cfg ''attendance''"
  have nf: "\<not> (falsy (creq_classId req) \<or> falsy (creq_session req))"
    using first by (auto simp: closeSession_def)
  obtain sessionInfo where found: "findSession lib cfg ?classId ?session = Inr (Some sessionInfo)"
    using first nf
    by (cases "findSession lib cfg ?classId ?session")
       (auto simp: closeSession_def Let_def split: option.splits)
  obtain r where ros: "js_get (rosterData cfg) ?classId = Own r"
    using first nf found
    by (cases "js_get (rosterData cfg) ?classId") (auto simp: closeSession_def Let_def)
  let ?salt = "deriveSessionSalt lib (SALT_SECRET cfg) ?classId (session_startIso sessionInfo)"
  let ?A = "case attendanceLog st ?key of Some hashes \<Rightarrow> hashes | None \<Rightarrow> {||}"
  let ?loop = "absentee_loop lib net ?classId ?session ?salt now ?topic ?key
                 (attendanceLog st ?key \<noteq> None) (students r) ?A [] st"
  obtain res st' where loop: "?loop = (res, st')" by (cases ?loop)
  from first nf found ros loop obtain A' acc' where res: "res = Inr (A', acc')"
    by (cases res) (auto simp: closeSession_def Let_def)
  from first nf found ros loop res
  have summary: "summary = \<lparr>cs_classId = ?classId, cs_session = ?session,
                            cs_totalStudents = length (students r),
                            cs_attended = int (fcard A') - int (length acc'),
                            cs_markedAbsent = length acc', cs_absentees = acc'\<rparr>"
    and st1: "st1 = st'\<lparr>attendanceLog := (attendanceLog st')(?key \<mapsto> A')\<rparr>"
    by (auto simp: closeSession_def Let_def)
  from loop_success_props[OF loop[unfolded res]]
  have A': "A' = ?A |\<union>| fset_of_list (map (uidHashOf lib ?salt) (students r))" by simp
  then have all_in: "\<forall>s \<in> set (students r). uidHashOf lib ?salt s |\<in>| A'"
    by (auto simp: fset_of_list.rep_eq)
  have log1: "attendanceLog st1 ?key = Some A'" by (simp add: st1)
  have again: "absentee_loop lib net2 ?classId ?session ?salt now2 ?topic ?key
                 True (students r) A' [] st1 = (Inr (A', []), st1)"
    using all_in by (rule loop_skip)
  have same: "st1\<lparr>attendanceLog := (attendanceLog st1)(?key \<mapsto> A')\<rparr> = st1"
    using log1 by (simp add: map_upd_triv)
  show ?thesis
    using nf found ros log1 again same
    by (simp add: closeSession_def Let_def summary)
qed

text \<open>
  The spec's scenario closed twice: the first close marks S002 and S003, the second marks
  nobody and leaves the two published records as they are.
\<close>

theorem C3_second_close_marks_nobody_witness:
  "closeSession example_runtime net_down example_config 1759309300000 example_close
     \<lparr>attendanceLog = [''math-9a:2025-10-01-0900'' \<mapsto>
         {|example_hash example_runtime ''04C3'', example_hash example_runtime ''04B2'',
           example_hash example_runtime ''04A1''|}],
      hcs_messages =
        [(Some ''0.0.1001'', absent_payload ''math-9a'' ''2025-10-01-0900'' 1759309200000
                               (example_hash example_runtime ''04B2'')),
         (Some ''0.0.1001'', absent_payload ''math-9a'' ''2025-10-01-0900'' 1759309200000
                               (example_hash example_runtime ''04C3''))],
      hcs_submitted =
        [(Some ''0.0.1001'', absent_payload ''math-9a'' ''2025-10-01-0900'' 1759309200000
                               (example_hash example_runtime ''04B2'')),
         (Some ''0.0.1001'', absent_payload ''math-9a'' ''2025-10-01-0900'' 1759309200000
                               (example_hash example_runtime ''04C3''))]\<rparr>
   = (CloseSuccess
        \<lparr>cs_classId = ''math-9a'', cs_session = ''2025-10-01-0900'',
         cs_totalStudents = 3, cs_attended = 3, cs_markedAbsent = 0, cs_absentees = []\<rparr>,
      \<lparr>attendanceLog = [''math-9a:2025-10-01-0900'' \<mapsto>
         {|example_hash example_runtime ''04C3'', example_hash example_runtime ''04B2'',
           example_hash example_runtime ''04A1''|}],
      hcs_messages =
        [(Some ''0.0.1001'', absent_payload ''math-9a'' ''2025-10-01-0900'' 1759309200000
                               (example_hash example_runtime ''04B2'')),
         (Some ''0.0.1001'', absent_payload ''math-9a'' ''2025-10-01-0900'' 1759309200000
                               (example_hash example_runtime ''04C3''))],
      hcs_submitted =
        [(Some ''0.0.1001'', absent_payload ''math-9a'' ''2025-10-01-0900'' 1759309200000
                               (example_hash example_runtime ''04B2'')),
         (Some ''0.0.1001'', absent_payload ''math-9a'' ''2025-10-01-0900'' 1759309200000
                               (example_hash example_runtime ''04C3''))]\<rparr>)"
proof -
  have first: "closeSession example_runtime net_ok example_config 1759309200000 example_close
       (ledger_state {|example_hash example_runtime ''04A1''|})
     = (CloseSuccess
          \<lparr>cs_classId = ''math-9a'', cs_session = ''2025-10-01-0900'',
           cs_totalStudents = 3, cs_attended = 1, cs_markedAbsent = 2,
           cs_absentees = [\<lparr>a_studentId = ''S002'', a_uidHash = example_hash example_runtime ''04B2''\<rparr>,
                           \<lparr>a_studentId = ''S003'', a_uidHash = example_hash example_runtime ''04C3''\<rparr>]\<rparr>,
        \<lparr>attendanceLog = [''math-9a:2025-10-01-0900'' \<mapsto>
              {|example_hash example_runtime ''04C3'', example_hash example_runtime ''04B2'',
                example_hash example_runtime ''04A1''|}],
         hcs_messages =
           [(Some ''0.0.1001'', absent_payload ''math-9a'' ''2025-10-01-0900'' 1759309200000
                                  (example_hash example_runtime ''04B2'')),
            (Some ''0.0.1001'', absent_payload ''math-9a'' ''2025-10-01-0900'' 1759309200000
                                  (example_hash example_runtime ''04C3''))],
         hcs_submitted =
           [(Some ''0.0.1001'', absent_payload ''math-9a'' ''2025-10-01-0900'' 1759309200000
                                  (example_hash example_runtime ''04B2'')),
            (Some ''0.0.1001'', absent_payload ''math-9a'' ''2025-10-01-0900'' 1759309200000
                                  (example_hash example_runtime ''04C3''))]\<rparr>)"
    by (simp add: closeSession_def falsy_def example_close_def findSession_def js_get_def SALT_SECRET_def
        example_config_def ledger_state_def initial_state_def net_ok_def
        publishToHCS_def resolveTopicIdByType_def js_or_def Let_def fcard_finsert_if
        example_hash_def computeUidHash_def deriveSessionSalt_def sha256Hex_def
        hmacSha256Hex_def example_runtime_def)
  show ?thesis
    using C3_second_close_marks_nobody[OF first, of net_down 1759309300000] by simp
qed

section \<open>C4: a second tap with the same pseudonym\<close>

text \<open>
  C4 (as amended). After a tap has been handled, every second tap with the same class,
  session and pseudonym (and a timestamp of its own) leaves the ledger set as it is, so its
  size does not grow. The handler has no \<^verbatim>\<open>alreadyPresent\<close> result: when the publish
  succeeds the second tap is answered like a first one, and its record is published again.
\<close>

theorem C4_second_tap_is_published_again:
  fixes lib :: node_runtime and cfg :: server_config and st :: server_state
    and net net_second :: hcs_network and now now_second :: int
    and req req_second :: attendance_request
  assumes req: "req_classId req = Some classId" "req_session req = Some session"
               "req_uidHash req = Some uidHash"
               "classId \<noteq> []" "session \<noteq> []" "uidHash \<noteq> []"
      and second: "req_classId req_second = Some classId" "req_session req_second = Some session"
               "req_uidHash req_second = Some uidHash"
      and found: "findSession lib cfg classId session = Inr (Some sessionInfo)"
  defines "key \<equiv> classId @ '':'' @ session"
  defines "st1 \<equiv> snd (handleAttendance lib net cfg now req st)"
  defines "timestamp \<equiv> (case req_ts req_second of None \<Rightarrow> now_second
                                                 | Some t \<Rightarrow> if t = 0 then now_second else t)"
  defines "status \<equiv> determineStatus lib timestamp (session_startIso sessionInfo)
                       (LATE_TOLERANCE_MIN cfg)"
  defines "msg \<equiv> (resolveTopicIdByType cfg ''attendance'',
                   \<lparr>p_type = ''attendance'', p_classId = classId, p_session = session,
                    p_uidHash = uidHash, p_status = status, p_ts = timestamp\<rparr>)"
  shows "(\<exists>L. attendanceLog st1 key = Some L \<and> uidHash |\<in>| L)
   \<and> attendanceLog (snd (handleAttendance lib net_second cfg now_second req_second st1))
       = attendanceLog st1
   \<and> (net_second (length (hcs_submitted st1)) = Inr consensusTimestamp \<longrightarrow>
        handleAttendance lib net_second cfg now_second req_second st1 =
          (AttendanceSuccess status consensusTimestamp (resolveTopicIdByType cfg ''attendance''),
           st1\<lparr>hcs_messages := hcs_messages st1 @ [msg],
               hcs_submitted := hcs_submitted st1 @ [msg]\<rparr>))"
proof -
  let ?L = "case attendanceLog st key of Some hashes \<Rightarrow> hashes | None \<Rightarrow> {||}"
  note first = handleAttendance_found[where net = net and st = st and now = now and lib = lib,
      OF req found refl refl refl refl refl, folded key_def]
  have log1: "attendanceLog st1 key = Some (finsert uidHash ?L)"
    unfolding st1_def first by (cases "net (length (hcs_submitted st))") simp_all
  note again = handleAttendance_found[where net = net_second and st = st1 and now = now_second
      and lib = lib, OF second req(4) req(5) req(6) found refl refl refl refl refl,
      folded key_def timestamp_def status_def msg_def]
  have same: "(attendanceLog st1)(key \<mapsto> finsert uidHash (finsert uidHash ?L)) = attendanceLog st1"
    using log1 by (simp add: map_upd_triv)
  have unchanged:
    "attendanceLog (snd (handleAttendance lib net_second cfg now_second req_second st1))
       = attendanceLog st1"
    unfolding again using log1 same
    by (cases "net_second (length (hcs_submitted st1))") simp_all
  have published: "handleAttendance lib net_second cfg now_second req_second st1 =
          (AttendanceSuccess status consensusTimestamp (resolveTopicIdByType cfg ''attendance''),
           st1\<lparr>hcs_messages := hcs_messages st1 @ [msg],
               hcs_submitted := hcs_submitted st1 @ [msg]\<rparr>)"
    if "net_second (length (hcs_submitted st1)) = Inr consensusTimestamp"
    unfolding again using that log1 same by (simp add: map_upd_triv msg_def)
  show ?thesis using log1 unchanged published by simp
qed

text \<open>
  A tap one minute after the start of the session and a second tap of the same card six
  minutes after it: the ledger set is the same after both, and the second tap is answered
  and published as a late arrival.
\<close>

theorem C4_second_tap_is_published_again_witness:
  "attendanceLog (snd (handleAttendance example_runtime net_ok example_config 1759305970000
       \<lparr>req_classId = Some ''math-9a'', req_session = Some ''2025-10-01-0900'',
        req_uidHash = Some (example_hash example_runtime ''04A1''),
        req_ts = Some 1759305960000\<rparr>
       (snd (handleAttendance example_runtime net_ok example_config 1759305700000
          (example_tap (example_hash example_runtime ''04A1'')) initial_state))))
     = attendanceLog (snd (handleAttendance example_runtime net_ok example_config 1759305700000
          (example_tap (example_hash example_runtime ''04A1'')) initial_state))
   \<and> fst (handleAttendance example_runtime net_ok example_config 1759305970000
       \<lparr>req_classId = Some ''math-9a'', req_session = Some ''2025-10-01-0900'',
        req_uidHash = Some (example_hash example_runtime ''04A1''),
        req_ts = Some 1759305960000\<rparr>
       (snd (handleAttendance example_runtime net_ok example_config 1759305700000
          (example_tap (example_hash example_runtime ''04A1'')) initial_state)))
     = AttendanceSuccess ''late'' ''1759305661.000000000'' (Some ''0.0.1001'')"
proof -
  have found: "findSession example_runtime example_config ''math-9a'' ''2025-10-01-0900''
      = Inr (Some \<lparr>session_id = ''2025-10-01-0900'',
                    session_startIso = ''2025-10-01T09:00:00+01:00''\<rparr>)"
    by (simp add: findSession_def js_get_def example_config_def)
  have topic: "resolveTopicIdByType example_config ''attendance'' = Some ''0.0.1001''"
    by (simp add: resolveTopicIdByType_def js_or_def example_config_def)
  have h: "example_hash example_runtime c = ''0x'' @ c @ ''k|math-9a:2025-10-01T09:00:00+01:00''"
    for c
    by (simp add: example_hash_def computeUidHash_def deriveSessionSalt_def
        sha256Hex_def hmacSha256Hex_def example_runtime_def Let_def)
  have status: "determineStatus example_runtime 1759305960000 ''2025-10-01T09:00:00+01:00''
      (LATE_TOLERANCE_MIN example_config) = ''late''"
    by (simp add: determineStatus_def withinTolerance_def example_runtime_def
        LATE_TOLERANCE_MIN_def example_config_def Let_def)
  show ?thesis
    using C4_second_tap_is_published_again[
        where req = "example_tap (example_hash example_runtime ''04A1'')"
        and req_second = "\<lparr>req_classId = Some ''math-9a'',
              req_session = Some ''2025-10-01-0900'',
              req_uidHash = Some (example_hash example_runtime ''04A1''),
              req_ts = Some 1759305960000\<rparr>"
        and classId = "''math-9a''" and session = "''2025-10-01-0900''"
        and uidHash = "example_hash example_runtime ''04A1''" and cfg = example_config
        and net = net_ok and net_second = net_ok and lib = example_runtime
        and st = initial_state and now = 1759305700000 and now_second = 1759305970000
        and consensusTimestamp = "''1759305661.000000000''",
        OF _ _ _ _ _ _ _ _ _ found]
    by (simp add: example_tap_def h topic status net_ok_def)
qed

text \<open>
  C4 as stated fails: there is no \<^verbatim>\<open>alreadyPresent\<close> in the answer, and after the same tap
  has been sent twice the topic holds two records with the same pseudonym.
\<close>

theorem C4_duplicate_tap_counterexample:
  "handleAttendance example_runtime net_ok example_config 1759305700000
       (example_tap (example_hash example_runtime ''04A1''))
       (snd (handleAttendance example_runtime net_ok example_config 1759305700000
          (example_tap (example_hash example_runtime ''04A1'')) initial_state))
     = (AttendanceSuccess ''present_on_time'' ''1759305661.000000000'' (Some ''0.0.1001''),
        \<lparr>attendanceLog = [''math-9a:2025-10-01-0900'' \<mapsto> {|example_hash example_runtime ''04A1''|}],
         hcs_messages =
           [(Some ''0.0.1001'',
             \<lparr>p_type = ''attendance'', p_classId = ''math-9a'', p_session = ''2025-10-01-0900'',
              p_uidHash = example_hash example_runtime ''04A1'', p_status = ''present_on_time'',
              p_ts = 1759305660000\<rparr>),
            (Some ''0.0.1001'',
             \<lparr>p_type = ''attendance'', p_classId = ''math-9a'', p_session = ''2025-10-01-0900'',
              p_uidHash = example_hash example_runtime ''04A1'', p_status = ''present_on_time'',
              p_ts = 1759305660000\<rparr>)],
         hcs_submitted =
           [(Some ''0.0.1001'',
             \<lparr>p_type = ''attendance'', p_classId = ''math-9a'', p_session = ''2025-10-01-0900'',
              p_uidHash = example_hash example_runtime ''04A1'', p_status = ''present_on_time'',
              p_ts = 1759305660000\<rparr>),
            (Some ''0.0.1001'',
             \<lparr>p_type = ''attendance'', p_classId = ''math-9a'', p_session = ''2025-10-01-0900'',
              p_uidHash = example_hash example_runtime ''04A1'', p_status = ''present_on_time'',
              p_ts = 1759305660000\<rparr>)]\<rparr>)"
  by (simp add: handleAttendance_def falsy_def example_tap_def findSession_def js_get_def
      example_config_def initial_state_def net_ok_def publishToHCS_def
      resolveTopicIdByType_def js_or_def Let_def determineStatus_def withinTolerance_def
      LATE_TOLERANCE_MIN_def example_hash_def computeUidHash_def deriveSessionSalt_def
      sha256Hex_def hmacSha256Hex_def example_runtime_def)

section \<open>C5: a publish that fails during ingestion\<close>

text \<open>
  C5 does not hold of the code. \<^verbatim>\<open>handleAttendance\<close> adds the uid hash to the attendance log
  before it publishes (\<^verbatim>\<open>closeSession\<close> publishes first and adds afterwards). With the
  consensus service down, a tap into an empty log is answered 500, nothing is published,
  and the log holds the pseudonym all the same.
\<close>

theorem C5_failed_publish_leaves_pseudonym_in_ledger:
  "handleAttendance example_runtime net_down example_config 1759305700000
       (example_tap (example_hash example_runtime ''04A1'')) initial_state
     = (AttendanceError 500 ''timeout'',
        \<lparr>attendanceLog = [''math-9a:2025-10-01-0900'' \<mapsto> {|example_hash example_runtime ''04A1''|}],
         hcs_messages = [],
         hcs_submitted =
           [(Some ''0.0.1001'',
             \<lparr>p_type = ''attendance'', p_classId = ''math-9a'', p_session = ''2025-10-01-0900'',
              p_uidHash = example_hash example_runtime ''04A1'', p_status = ''present_on_time'',
              p_ts = 1759305660000\<rparr>)]\<rparr>)
   \<and> attendanceLog initial_state ''math-9a:2025-10-01-0900'' = None"
  by (simp add: handleAttendance_def falsy_def example_tap_def findSession_def js_get_def
      example_config_def initial_state_def net_down_def publishToHCS_def
      resolveTopicIdByType_def js_or_def Let_def determineStatus_def withinTolerance_def
      LATE_TOLERANCE_MIN_def example_hash_def computeUidHash_def deriveSessionSalt_def
      sha256Hex_def hmacSha256Hex_def example_runtime_def)

section \<open>C6: time classification\<close>

text \<open>
  C6 (as amended). Let the engine round to a nearest double, let the session start parse to
  the time \<open>start\<close>, and let \<open>start\<close>, the event timestamp \<open>ts\<close>, their difference and the
  tolerance window \<open>tolerance * 60000\<close> be integers of absolute value at most \<open>2 ^ 53\<close>
  (the window below it), so that doubles hold them exactly. Then the status is
  \<^verbatim>\<open>present_on_time\<close> exactly when \<open>(ts - start) / 60000 \<le> tolerance\<close> and \<^verbatim>\<open>late\<close>
  otherwise; \<open>ts = start + tolerance * 60000\<close> is on time and one millisecond later is
  late; an event before the start is on time whenever the tolerance is not negative. The
  classifier never returns an absent status.
\<close>

theorem C6_time_classification:
  assumes start: "date_getTime lib startIso = Some start"
      and near: "rounds_to_nearest lib"
      and safe_start: "exact_integer start"
      and window: "\<bar>tol\<bar> * 60000 < 2 ^ 53"
  shows "(exact_integer ts \<and> exact_integer (ts - start) \<longrightarrow>
            determineStatus lib ts startIso tol =
              (if (of_int (ts - start) :: rat) / 60000 \<le> of_int tol
               then ''present_on_time'' else ''late''))
       \<and> (exact_integer (start + tol * 60000) \<longrightarrow>
            determineStatus lib (start + tol * 60000) startIso tol = ''present_on_time'')
       \<and> (exact_integer (start + tol * 60000 + 1) \<longrightarrow>
            determineStatus lib (start + tol * 60000 + 1) startIso tol = ''late'')
       \<and> (0 \<le> tol \<and> ts < start \<and> exact_integer ts \<and> exact_integer (ts - start) \<longrightarrow>
            determineStatus lib ts startIso tol = ''present_on_time'')
       \<and> determineStatus lib ts startIso tol \<noteq> ''absent''
       \<and> determineStatus lib ts startIso tol \<noteq> ''absent_marked''"
proof -
  note general = determineStatus_exact[OF start near window]
  have "exact_integer (start + tol * 60000 - start)"
    using window unfolding exact_integer_def by simp
  from general[OF this]
  have boundary: "determineStatus lib (start + tol * 60000) startIso tol = ''present_on_time''"
    by simp
  have "exact_integer (start + tol * 60000 + 1 - start)"
    using window unfolding exact_integer_def by simp
  from general[OF this]
  have after: "determineStatus lib (start + tol * 60000 + 1) startIso tol = ''late''"
    by (simp add: field_simps)
  have early: "determineStatus lib ts startIso tol = ''present_on_time''"
    if "0 \<le> tol" "ts < start" "exact_integer (ts - start)"
  proof -
    have "(of_int (ts - start) :: rat) / 60000 \<le> 0"
      using that(2) by (simp add: divide_le_0_iff)
    also have "(0::rat) \<le> of_int tol" using that(1) by simp
    finally show ?thesis using general[OF that(3)] by simp
  qed
  have never: "determineStatus lib ts startIso tol \<noteq> ''absent''"
    "determineStatus lib ts startIso tol \<noteq> ''absent_marked''"
    by (simp_all add: determineStatus_def)
  show ?thesis using general boundary after early never by simp
qed

text \<open>
  The spec's scenarios with a tolerance of five minutes: one minute early and exactly five
  minutes after the start are on time, one millisecond more is late.
\<close>

theorem C6_time_classification_witness:
  "date_getTime example_runtime ''1970-01-01T00:00:00.000Z'' = Some 0
   \<and> rounds_to_nearest example_runtime
   \<and> exact_integer 0 \<and> \<bar>5 :: int\<bar> * 60000 < 2 ^ 53
   \<and> exact_integer (- 60000) \<and> exact_integer (- 60000 - 0)
   \<and> exact_integer (0 + 5 * 60000) \<and> exact_integer (0 + 5 * 60000 + 1)
   \<and> (0::int) \<le> 5 \<and> (- 60000 :: int) < 0
   \<and> determineStatus example_runtime (- 60000) ''1970-01-01T00:00:00.000Z'' 5
       = ''present_on_time''
   \<and> determineStatus example_runtime 300000 ''1970-01-01T00:00:00.000Z'' 5 = ''present_on_time''
   \<and> determineStatus example_runtime 300001 ''1970-01-01T00:00:00.000Z'' 5 = ''late''"
proof -
  have h: "date_getTime example_runtime ''1970-01-01T00:00:00.000Z'' = Some 0"
    by (simp add: example_runtime_def)
  have near: "rounds_to_nearest example_runtime"
    by (auto simp: rounds_to_nearest_def example_runtime_def)
  have window: "\<bar>5 :: int\<bar> * 60000 < 2 ^ 53" by simp
  have exact: "exact_integer 0" "exact_integer (- 60000)" "exact_integer 300000"
    "exact_integer 300001"
    by (simp_all add: exact_integer_def)
  show ?thesis
    using C6_time_classification[OF h near exact(1) window, of "- 60000"] h near exact by simp
qed

text \<open>
  C6 as stated fails for a negative tolerance: with \<^verbatim>\<open>LATE_TOLERANCE_MIN=-5\<close> an event one
  minute before the start has a negative elapsed time and is classified late. It also fails
  beyond the integers that doubles hold exactly: for \<open>start = -1\<close> and a tolerance of
  \<open>150119987580\<close> minutes, \<open>ts = start + tolerance * 60000 + 1\<close> is the double
  \<open>9007199254800000\<close>; the subtraction \<open>ts - start\<close> rounds to \<open>tolerance * 60000\<close>, and the
  event is classified on time.
\<close>

theorem C6_tolerance_and_rounding_counterexample:
  "date_getTime example_runtime ''1970-01-01T00:00:00.000Z'' = Some 0
   \<and> (- 60000 :: int) < 0
   \<and> determineStatus example_runtime (- 60000) ''1970-01-01T00:00:00.000Z'' (- 5) = ''late''
   \<and> date_getTime example_runtime ''1969-12-31T23:59:59.999Z'' = Some (- 1)
   \<and> (9007199254800000 :: int) = - 1 + 150119987580 * 60000 + 1
   \<and> determineStatus example_runtime 9007199254800000 ''1969-12-31T23:59:59.999Z''
        150119987580 = ''present_on_time''"
  by (simp add: determineStatus_def withinTolerance_def example_runtime_def Let_def)

section \<open>C7: pseudonyms across sessions\<close>

text \<open>
  C7 (as amended). For a fixed token, secret and class id, two different session starts
  give two different HMAC inputs. Their salts are equal only if the HMAC collides on these
  two inputs, and the pseudonyms are equal only if the HMAC collides on them or the hash
  collides on the two different strings token + salt. Within one session the pseudonym is a
  function of the token.
\<close>

theorem C7_linking_needs_a_collision:
  assumes "iso1 \<noteq> iso2"
  shows "(deriveSessionSalt lib secret classId iso1 = deriveSessionSalt lib secret classId iso2 \<longrightarrow>
            classId @ '':'' @ iso1 \<noteq> classId @ '':'' @ iso2
          \<and> createHmac_sha256 lib secret (classId @ '':'' @ iso1)
              = createHmac_sha256 lib secret (classId @ '':'' @ iso2))
       \<and> (computeUidHash lib token (deriveSessionSalt lib secret classId iso1)
            = computeUidHash lib token (deriveSessionSalt lib secret classId iso2) \<longrightarrow>
            (classId @ '':'' @ iso1 \<noteq> classId @ '':'' @ iso2
             \<and> createHmac_sha256 lib secret (classId @ '':'' @ iso1)
                 = createHmac_sha256 lib secret (classId @ '':'' @ iso2))
          \<or> (token @ deriveSessionSalt lib secret classId iso1
                \<noteq> token @ deriveSessionSalt lib secret classId iso2
             \<and> createHash_sha256 lib (token @ deriveSessionSalt lib secret classId iso1)
                 = createHash_sha256 lib (token @ deriveSessionSalt lib secret classId iso2)))
       \<and> (token1 = token2 \<longrightarrow>
            computeUidHash lib token1 (deriveSessionSalt lib secret classId iso1)
            = computeUidHash lib token2 (deriveSessionSalt lib secret classId iso1))"
  using assms
  by (auto simp: deriveSessionSalt_def computeUidHash_def hmacSha256Hex_def sha256Hex_def Let_def)

text \<open>With hash functions that do not collide, two session starts give two pseudonyms.\<close>

theorem C7_linking_needs_a_collision_witness:
  "''2025-10-01T09:00:00+01:00'' \<noteq> ''2025-10-02T09:00:00+01:00''
   \<and> deriveSessionSalt example_runtime ''k'' ''math-9a'' ''2025-10-01T09:00:00+01:00''
       \<noteq> deriveSessionSalt example_runtime ''k'' ''math-9a'' ''2025-10-02T09:00:00+01:00''
   \<and> computeUidHash example_runtime ''04A1''
         (deriveSessionSalt example_runtime ''k'' ''math-9a'' ''2025-10-01T09:00:00+01:00'')
       \<noteq> computeUidHash example_runtime ''04A1''
         (deriveSessionSalt example_runtime ''k'' ''math-9a'' ''2025-10-02T09:00:00+01:00'')"
  using C7_linking_needs_a_collision[of "''2025-10-01T09:00:00+01:00''"
      "''2025-10-02T09:00:00+01:00''" example_runtime "''k''" "''math-9a''" "''04A1''"]
  by (simp add: example_runtime_def)

text \<open>
  C7 as stated fails for every runtime whose HMAC digest has a fixed length (64 hex
  characters for SHA-256): there are more session starts than digests, so no such runtime
  gives different salts to all pairs of different session starts.
\<close>

theorem C7_fixed_length_digest_counterexample:
  "\<not> (\<exists>lib. (\<forall>secret data. length (createHmac_sha256 lib secret data) = 64)
        \<and> (\<forall>secret classId token iso1 iso2. iso1 \<noteq> iso2 \<longrightarrow>
              deriveSessionSalt lib secret classId iso1 \<noteq> deriveSessionSalt lib secret classId iso2
            \<and> computeUidHash lib token (deriveSessionSalt lib secret classId iso1)
                \<noteq> computeUidHash lib token (deriveSessionSalt lib secret classId iso2)))"
proof (rule notI, elim exE conjE)
  fix lib :: node_runtime
  assume len: "\<forall>secret data. length (createHmac_sha256 lib secret data) = 64"
  assume unl: "\<forall>secret classId token iso1 iso2. iso1 \<noteq> iso2 \<longrightarrow>
              deriveSessionSalt lib secret classId iso1 \<noteq> deriveSessionSalt lib secret classId iso2
            \<and> computeUidHash lib token (deriveSessionSalt lib secret classId iso1)
                \<noteq> computeUidHash lib token (deriveSessionSalt lib secret classId iso2)"
  let ?f = "deriveSessionSalt lib [] []"
  have "inj ?f"
  proof (rule injI)
    fix a b assume eq: "?f a = ?f b"
    show "a = b"
    proof (rule ccontr)
      assume ne: "a \<noteq> b"
      from unl have "a \<noteq> b \<longrightarrow> ?f a \<noteq> ?f b
          \<and> computeUidHash lib [] (?f a) \<noteq> computeUidHash lib [] (?f b)"
        by (elim allE)
      with ne eq show False by simp
    qed
  qed
  moreover have "length (?f x) = 64" for x
    using len by (simp add: deriveSessionSalt_def hmacSha256Hex_def Let_def)
  then have "\<not> inj ?f" by (rule fixed_length_not_inj)
  ultimately show False by simp
qed

section \<open>C8: validation and not-found errors\<close>

text \<open>
  C8 does not hold of the code. The schedule is looked up with \<^verbatim>\<open>scheduleData[classId]\<close>
  on a plain object, so a class id that is no class of the schedule but names a property
  every object inherits, such as \<^verbatim>\<open>constructor\<close>, is found. The value has no
  \<^verbatim>\<open>sessions\<close>, \<^verbatim>\<open>findSession\<close> throws a \<^verbatim>\<open>TypeError\<close>, and both handlers answer 500
  with its message where the claim says a not-found error. The state is as it was.
\<close>

theorem C8_inherited_class_key_is_answered_500:
  "\<forall>lib. rosterData example_config ''constructor'' = None
       \<and> scheduleData example_config ''constructor'' = None
       \<and> handleAttendance lib net_ok example_config 1759305700000
           \<lparr>req_classId = Some ''constructor'', req_session = Some ''2025-10-01-0900'',
            req_uidHash = Some ''0xab'', req_ts = None\<rparr> initial_state
         = (AttendanceError 500 (typeError_message lib ''classSchedule.sessions.find''),
            initial_state)
       \<and> closeSession lib net_ok example_config 1759309200000
           \<lparr>creq_classId = Some ''constructor'', creq_session = Some ''2025-10-01-0900''\<rparr>
           initial_state
         = (CloseError 500 (typeError_message lib ''classSchedule.sessions.find''),
            initial_state)"
  by (simp add: handleAttendance_def closeSession_def falsy_def findSession_def js_get_def
      object_prototype_keys_def example_config_def)

section \<open>C9: the separator of the salt input\<close>

text \<open>
  C9. The salt is the HMAC of \<^verbatim>\<open>classId + ":" + sessionStartIso\<close>. Two pairs of class id and
  session start whose joined strings are equal get the same salt, and a token gets the same
  pseudonym in both sessions.
\<close>

theorem C9_joined_salt_input:
  assumes "classId1 @ '':'' @ iso1 = classId2 @ '':'' @ iso2"
  shows "deriveSessionSalt lib secret classId1 iso1 = deriveSessionSalt lib secret classId2 iso2
       \<and> computeUidHash lib token (deriveSessionSalt lib secret classId1 iso1)
         = computeUidHash lib token (deriveSessionSalt lib secret classId2 iso2)"
  using assms by (simp add: deriveSessionSalt_def Let_def)

text \<open>The pairs \<open>("a", "b:c")\<close> and \<open>("a:b", "c")\<close> are different and get the same salt.\<close>

theorem C9_joined_salt_input_witness:
  "(''a'', ''b:c'') \<noteq> (''a:b'', ''c'')
   \<and> ''a'' @ '':'' @ ''b:c'' = ''a:b'' @ '':'' @ ''c''
   \<and> deriveSessionSalt example_runtime ''k'' ''a'' ''b:c''
       = deriveSessionSalt example_runtime ''k'' ''a:b'' ''c''
   \<and> computeUidHash example_runtime ''04A1'' (deriveSessionSalt example_runtime ''k'' ''a'' ''b:c'')
     = computeUidHash example_runtime ''04A1'' (deriveSessionSalt example_runtime ''k'' ''a:b'' ''c'')"
  using C9_joined_salt_input[of "''a''" "''b:c''" "''a:b''" "''c''" example_runtime "''k''" "''04A1''"]
  by simp

section \<open>C10: a pseudonym of no roster member\<close>

text \<open>
  C10. Ingestion accepts any pseudonym that is not empty, without looking at the roster, and
  adds it to the ledger set. Let \<open>p\<close> be such a pseudonym that is the salted hash of no
  roster member (the roster's pseudonyms being pairwise different, and every publish
  succeeding). After the tap and a close, \<open>attended\<close> is the size of the ledger set before
  the close, which counts \<open>p\<close>; it exceeds the number of roster members recorded present,
  and the ledger set after the close is larger than the roster.
\<close>

theorem C10_unverified_pseudonym_is_counted:
  fixes lib :: node_runtime and cfg :: server_config and st :: server_state
    and net :: hcs_network and now now_close :: int
    and tap :: attendance_request and creq :: close_request
    and sessionInfo :: session_info and r :: roster
  assumes tap: "req_classId tap = Some classId" "req_session tap = Some session"
               "req_uidHash tap = Some p" "classId \<noteq> []" "session \<noteq> []" "p \<noteq> []"
      and creq: "creq_classId creq = Some classId" "creq_session creq = Some session"
      and found: "findSession lib cfg classId session = Inr (Some sessionInfo)"
      and ros: "rosterData cfg classId = Some r"
      and ok: "\<And>n. \<exists>t. net n = Inr t"
  defines "salt \<equiv> deriveSessionSalt lib (SALT_SECRET cfg) classId (session_startIso sessionInfo)"
  defines "key \<equiv> classId @ '':'' @ session"
  defines "L \<equiv> finsert p (case attendanceLog st key of Some hashes \<Rightarrow> hashes | None \<Rightarrow> {||})"
  assumes dist: "distinct (map (uidHashOf lib salt) (students r))"
      and foreign: "p \<notin> set (map (uidHashOf lib salt) (students r))"
  defines "st1 \<equiv> snd (handleAttendance lib net cfg now tap st)"
  defines "todo \<equiv> filter (\<lambda>s. uidHashOf lib salt s |\<notin>| L) (students r)"
  shows "(\<exists>status t. fst (handleAttendance lib net cfg now tap st)
            = AttendanceSuccess status t (resolveTopicIdByType cfg ''attendance''))
   \<and> attendanceLog st1 key = Some L
   \<and> fst (closeSession lib net cfg now_close creq st1) =
        CloseSuccess
          \<lparr>cs_classId = classId, cs_session = session,
           cs_totalStudents = length (students r),
           cs_attended = int (fcard L),
           cs_markedAbsent = length todo,
           cs_absentees = map (absenteeOf lib salt) todo\<rparr>
   \<and> p |\<in>| L
   \<and> length (filter (\<lambda>s. uidHashOf lib salt s |\<in>| L) (students r)) < fcard L
   \<and> attendanceLog (snd (closeSession lib net cfg now_close creq st1)) key
       = Some (L |\<union>| fset_of_list (map (uidHashOf lib salt) (students r)))
   \<and> length (students r) < fcard (L |\<union>| fset_of_list (map (uidHashOf lib salt) (students r)))"
proof -
  have e: "salt = deriveSessionSalt lib (SALT_SECRET cfg) classId (session_startIso sessionInfo)"
    "key = classId @ '':'' @ session"
    "todo = filter (\<lambda>s. uidHashOf lib salt s |\<notin>| L) (students r)"
    by (simp_all add: salt_def key_def todo_def)
  obtain t where t: "net (length (hcs_submitted st)) = Inr t" using ok by blast
  note first = handleAttendance_found[where net = net and st = st and now = now and lib = lib,
      OF tap found refl refl refl refl refl, folded key_def, folded L_def]
  have accepted: "\<exists>status t. fst (handleAttendance lib net cfg now tap st)
            = AttendanceSuccess status t (resolveTopicIdByType cfg ''attendance'')"
    unfolding first using t by simp
  have log1: "attendanceLog st1 key = Some L"
    unfolding st1_def first using t by simp
  then have l1: "L = (case attendanceLog st1 key of Some hashes \<Rightarrow> hashes | None \<Rightarrow> {||})"
    by simp
  note close = closeSession_all_published[where net = net and st = st1 and now = now_close,
      OF creq tap(4) tap(5) found ros ok e(1) e(2) l1 dist e(3)]
  have inL: "p |\<in>| L" by (simp add: L_def)
  show ?thesis
    using accepted log1 inL
      present_members_less_than_ledger[OF dist inL foreign]
      ledger_larger_than_roster[OF dist inL foreign]
    by (simp add: close)
qed

text \<open>
  Nobody of the roster has tapped; a client sends the pseudonym \<^verbatim>\<open>0xintruder\<close>. It is
  accepted and counted: the close reports one attendee although all three roster members
  are marked absent, and the ledger set has four elements.
\<close>

theorem C10_unverified_pseudonym_is_counted_witness:
  "fst (handleAttendance example_runtime net_ok example_config 1759305700000
          (example_tap ''0xintruder'') initial_state)
     = AttendanceSuccess ''present_on_time'' ''1759305661.000000000'' (Some ''0.0.1001'')
   \<and> fst (closeSession example_runtime net_ok example_config 1759309200000 example_close
          (snd (handleAttendance example_runtime net_ok example_config 1759305700000
             (example_tap ''0xintruder'') initial_state)))
     = CloseSuccess
         \<lparr>cs_classId = ''math-9a'', cs_session = ''2025-10-01-0900'',
          cs_totalStudents = 3, cs_attended = 1, cs_markedAbsent = 3,
          cs_absentees =
            [\<lparr>a_studentId = ''S001'', a_uidHash = example_hash example_runtime ''04A1''\<rparr>,
             \<lparr>a_studentId = ''S002'', a_uidHash = example_hash example_runtime ''04B2''\<rparr>,
             \<lparr>a_studentId = ''S003'', a_uidHash = example_hash example_runtime ''04C3''\<rparr>]\<rparr>
   \<and> attendanceLog (snd (closeSession example_runtime net_ok example_config 1759309200000
          example_close
          (snd (handleAttendance example_runtime net_ok example_config 1759305700000
             (example_tap ''0xintruder'') initial_state)))) ''math-9a:2025-10-01-0900''
     = Some {|example_hash example_runtime ''04A1'', example_hash example_runtime ''04B2'',
              example_hash example_runtime ''04C3'', ''0xintruder''|}
   \<and> fcard {|example_hash example_runtime ''04A1'', example_hash example_runtime ''04B2'',
              example_hash example_runtime ''04C3'', ''0xintruder''|} = 4"
proof -
  have found: "findSession example_runtime example_config ''math-9a'' ''2025-10-01-0900''
      = Inr (Some \<lparr>session_id = ''2025-10-01-0900'',
                    session_startIso = ''2025-10-01T09:00:00+01:00''\<rparr>)"
    by (simp add: findSession_def js_get_def example_config_def)
  have ros: "rosterData example_config ''math-9a''
      = Some \<lparr>students = [\<lparr>studentId = ''S001'', cardUidHex = ''04A1''\<rparr>,
                           \<lparr>studentId = ''S002'', cardUidHex = ''04B2''\<rparr>,
                           \<lparr>studentId = ''S003'', cardUidHex = ''04C3''\<rparr>]\<rparr>"
    by (simp add: example_config_def)
  have ok: "\<And>n. \<exists>t. net_ok n = Inr t" by (simp add: net_ok_def)
  have secret: "SALT_SECRET example_config = ''k''"
    by (simp add: SALT_SECRET_def example_config_def)
  have topic: "resolveTopicIdByType example_config ''attendance'' = Some ''0.0.1001''"
    by (simp add: resolveTopicIdByType_def js_or_def example_config_def)
  have h: "example_hash example_runtime c = ''0x'' @ c @ ''k|math-9a:2025-10-01T09:00:00+01:00''"
    for c
    by (simp add: example_hash_def computeUidHash_def deriveSessionSalt_def
        sha256Hex_def hmacSha256Hex_def example_runtime_def Let_def)
  have tapped: "handleAttendance example_runtime net_ok example_config 1759305700000
          (example_tap ''0xintruder'') initial_state
     = (AttendanceSuccess ''present_on_time'' ''1759305661.000000000'' (Some ''0.0.1001''),
        \<lparr>attendanceLog = [''math-9a:2025-10-01-0900'' \<mapsto> {|''0xintruder''|}],
         hcs_messages =
           [(Some ''0.0.1001'',
             \<lparr>p_type = ''attendance'', p_classId = ''math-9a'', p_session = ''2025-10-01-0900'',
              p_uidHash = ''0xintruder'', p_status = ''present_on_time'',
              p_ts = 1759305660000\<rparr>)],
         hcs_submitted =
           [(Some ''0.0.1001'',
             \<lparr>p_type = ''attendance'', p_classId = ''math-9a'', p_session = ''2025-10-01-0900'',
              p_uidHash = ''0xintruder'', p_status = ''present_on_time'',
              p_ts = 1759305660000\<rparr>)]\<rparr>)"
    by (simp add: handleAttendance_def falsy_def example_tap_def findSession_def js_get_def
        example_config_def initial_state_def net_ok_def publishToHCS_def
        resolveTopicIdByType_def js_or_def Let_def determineStatus_def withinTolerance_def
        LATE_TOLERANCE_MIN_def example_runtime_def)
  show ?thesis
    using C10_unverified_pseudonym_is_counted[where tap = "example_tap ''0xintruder''"
        and creq = example_close and classId = "''math-9a''"
        and session = "''2025-10-01-0900''" and p = "''0xintruder''" and cfg = example_config
        and net = net_ok and lib = example_runtime and st = initial_state
        and now = 1759305700000 and now_close = 1759309200000,
        OF _ _ _ _ _ _ _ _ found ros ok]
    unfolding tapped
    by (simp add: example_tap_def example_close_def initial_state_def secret topic
        example_hash_def[symmetric] h fcard_finsert_if fcard_fempty)
qed

end
